theory Spec2Isabelle
  imports Complex_Main "HOL-Library.Sublist"
begin

section \<open>The lamination and its tooth boundary\<close>

text \<open>
  \<^verbatim>\<open>gen_3D_mesh\<close> (Functions/GMSH/gen_3D_mesh.py) reads four things from the lamination:
  \<^verbatim>\<open>lamination.slot.get_surface_tooth()\<close>, \<^verbatim>\<open>lamination.L1\<close>, \<^verbatim>\<open>lamination.slot.Zs\<close> and
  \<^verbatim>\<open>lamination.is_stator\<close>. The tooth surface is used only through \<^verbatim>\<open>get_lines()\<close>, the
  ordered list of its boundary segments, called at lines 39, 46 and 48, and a segment only
  through \<^verbatim>\<open>get_begin()\<close>, \<^verbatim>\<open>get_center()\<close> and the test \<^verbatim>\<open>isinstance(line, Arc)\<close>.

  A boundary segment is a straight segment, an arc, or an object of some other kind that
  still answers \<^verbatim>\<open>get_begin()\<close>. Points are complex numbers. Python floats are modelled
  by the reals: the calls made, their order and their handles do not depend on rounding.
\<close>

datatype line =
    Segment (get_begin: complex) (get_end: complex)
  | Arc (get_begin: complex) (get_end: complex) (get_center: complex)
  | Other (get_begin: complex) (get_end: complex)

fun isinstance_Arc :: "line \<Rightarrow> bool" where
  "isinstance_Arc (Arc b e c) = True"
| "isinstance_Arc (Segment b e) = False"
| "isinstance_Arc (Other b e) = False"

text \<open>
  The tooth surface is an object whose \<^verbatim>\<open>get_lines()\<close> returns the segments or raises
  (the value \<open>None\<close>); it answers every call alike. The three reads made before the
  backend is started can raise as well: getting the tooth surface, reading the axial
  length and reading the slot count.
\<close>

record SurfLine =
  get_lines :: "line list option"

record Slot =
  get_surface_tooth :: "SurfLine option"
  Zs :: "int option"

record LamSlot =
  slot :: Slot
  L1 :: "real option"
  is_stator :: bool

section \<open>The backend, as a recorder of calls\<close>

text \<open>
  Every function of gmsh that \<^verbatim>\<open>gen_3D_mesh\<close> calls is a constructor of \<open>call\<close>, with the
  arguments of the call in the source's order. A pair (dimension, tag) names an entity.
\<close>

type_synonym dimtag = "int \<times> int"

datatype call =
    Initialize "string list"
  | OptionSetNumber string int
  | ModelAdd string
  | AddPoint real real real real int
  | AddLine int int int
  | AddCircleArc int int int int
  | AddCurveLoop "int list" int
  | AddPlaneSurface "int list" int
  | AddPhysicalGroup int "int list" int
  | SetPhysicalName int int string
  | Copy "dimtag list"
  | Rotate "dimtag list" real real real real real real real
  | Extrude "dimtag list" real real real "int list"
  | Synchronize
  | MeshGenerate int
  | Write string
  | Finalize

text \<open>
  What ends a run early: a failed read of the lamination, a failed \<^verbatim>\<open>get_lines()\<close>, an
  exception raised by the backend inside a call, or Python's IndexError on \<^verbatim>\<open>ov[0]\<close>.
\<close>

datatype error = LaminationError | GetLinesError | BackendError call | IndexError

text \<open>
  The backend is a parameter. Given the calls made so far in the session and the next
  call, it raises (\<open>None\<close>) or returns a list of entities (\<open>Some\<close>); only the list
  returned by \<^verbatim>\<open>copy\<close> is read by the program. A run threads the list of calls made so
  far and ends with an error or a value.
\<close>

type_synonym backend = "call list \<Rightarrow> call \<Rightarrow> dimtag list option"

type_synonym 'a run = "call list \<Rightarrow> call list \<times> (error + 'a)"

definition return :: "'a \<Rightarrow> 'a run" where
  "return x h = (h, Inr x)"

definition raise :: "error \<Rightarrow> 'a run" where
  "raise e h = (h, Inl e)"

definition bind :: "'a run \<Rightarrow> ('a \<Rightarrow> 'b run) \<Rightarrow> 'b run" where
  "bind m f h = (case m h of (h', Inl e) \<Rightarrow> (h', Inl e) | (h', Inr x) \<Rightarrow> f x h')"

definition invoke :: "backend \<Rightarrow> call \<Rightarrow> dimtag list run" where
  "invoke gmsh c h =
     (case gmsh h c of
        None \<Rightarrow> (h @ [c], Inl (BackendError c))
      | Some r \<Rightarrow> (h @ [c], Inr r))"

section \<open>gen_3D_mesh\<close>

text \<open>A call of \<^verbatim>\<open>tooth_surf.get_lines()\<close> inside the run.\<close>

definition call_get_lines :: "SurfLine \<Rightarrow> line list run" where
  "call_get_lines tooth_surf =
     (case get_lines tooth_surf of
        None \<Rightarrow> raise GetLinesError
      | Some lines \<Rightarrow> return lines)"

text \<open>
  Lines 39 to 42, over the segments that line 39 got: one point per segment, at its
  begin, tagged \<open>NPoint\<close>.
\<close>

fun create_points :: "backend \<Rightarrow> real \<Rightarrow> real \<Rightarrow> line list \<Rightarrow> int \<Rightarrow> int run" where
  "create_points gmsh L mesh_size [] NPoint = return NPoint"
| "create_points gmsh L mesh_size (line # rest) NPoint =
     (let Z = get_begin line;
          NPoint = NPoint + 1
      in bind (invoke gmsh (AddPoint (Re Z) (Im Z) (- L / 2) mesh_size NPoint))
           (\<lambda>_. create_points gmsh L mesh_size rest NPoint))"

text \<open>
  Lines 46 to 63, over the segments that line 46 got: one curve per segment. Line 48
  calls \<^verbatim>\<open>get_lines()\<close> again in every pass, for the number of segments; the segment
  that brings \<open>NLine\<close> to that number is closed on point 1.
\<close>

fun draw_lines ::
  "backend \<Rightarrow> real \<Rightarrow> real \<Rightarrow> SurfLine \<Rightarrow> line list \<Rightarrow> int \<Rightarrow> int \<Rightarrow> (int \<times> int) run" where
  "draw_lines gmsh L mesh_size tooth_surf [] NLine NPoint = return (NLine, NPoint)"
| "draw_lines gmsh L mesh_size tooth_surf (line # rest) NLine NPoint =
     (let NLine = NLine + 1 in
      bind (call_get_lines tooth_surf) (\<lambda>lines.
      if NLine = int (length lines) then
        if isinstance_Arc line then
          (let Zc = get_center line;
               NPoint = NPoint + 1
           in bind (invoke gmsh (AddPoint (Re Zc) (Im Zc) (- L / 2) mesh_size NPoint))
             (\<lambda>_. bind (invoke gmsh (AddCircleArc NLine (NPoint - 1) 1 NLine))
             (\<lambda>_. draw_lines gmsh L mesh_size tooth_surf rest NLine NPoint)))
        else
          bind (invoke gmsh (AddLine NLine 1 NLine))
            (\<lambda>_. draw_lines gmsh L mesh_size tooth_surf rest NLine NPoint)
      else
        if isinstance_Arc line then
          (let Zc = get_center line;
               NPoint = NPoint + 1
           in bind (invoke gmsh (AddPoint (Re Zc) (Im Zc) (- L / 2) mesh_size NPoint))
             (\<lambda>_. bind (invoke gmsh (AddCircleArc NLine NPoint (NLine + 1) NLine))
             (\<lambda>_. draw_lines gmsh L mesh_size tooth_surf rest NLine NPoint)))
        else
          bind (invoke gmsh (AddLine NLine (NLine + 1) NLine))
            (\<lambda>_. draw_lines gmsh L mesh_size tooth_surf rest NLine NPoint)))"

text \<open>
  Lines 37 to 69, the tooth: its points, its curves, the curve loop
  \<^verbatim>\<open>list(range(1, NLine + 1))\<close>, the plane surface and the physical group "Tooth". The
  first call of \<^verbatim>\<open>get_lines()\<close>, at line 39, comes after the backend was initialized.
\<close>

definition planar_loop_builder :: "backend \<Rightarrow> real \<Rightarrow> real \<Rightarrow> SurfLine \<Rightarrow> unit run" where
  "planar_loop_builder gmsh L mesh_size tooth_surf =
     bind (call_get_lines tooth_surf) (\<lambda>lines.
     bind (create_points gmsh L mesh_size lines 0) (\<lambda>NPoint.
     bind (call_get_lines tooth_surf) (\<lambda>lines.
     bind (draw_lines gmsh L mesh_size tooth_surf lines 0 NPoint) (\<lambda>(NLine, NPoint).
     bind (invoke gmsh (AddCurveLoop [1..NLine] 1)) (\<lambda>_.
     bind (invoke gmsh (AddPlaneSurface [1] 1)) (\<lambda>_.
     bind (invoke gmsh (AddPhysicalGroup 2 [1] 1)) (\<lambda>_.
     bind (invoke gmsh (SetPhysicalName 2 1 ''Tooth'')) (\<lambda>_.
     return ()))))))))"

text \<open>
  Lines 73 to 76, over \<^verbatim>\<open>range(Zs)\<close>: copy surface 1, rotate the copy about the axis
  through (0, 0, -L/2) along (0, 0, 1), append its tag \<^verbatim>\<open>ov[0][1]\<close> to \<open>surf_list\<close>.
\<close>

fun copy_rotate :: "backend \<Rightarrow> real \<Rightarrow> int list \<Rightarrow> int list \<Rightarrow> int list run" where
  "copy_rotate gmsh L [] surf_list = return surf_list"
| "copy_rotate gmsh L (ii # rest) surf_list =
     bind (invoke gmsh (Copy [(2, 1)])) (\<lambda>ov.
     bind (invoke gmsh (Rotate ov 0 0 (- L / 2) 0 0 1 (real_of_int (ii + 1) * 2 * pi / 36))) (\<lambda>_.
     case ov of
       [] \<Rightarrow> raise IndexError
     | dt # _ \<Rightarrow> copy_rotate gmsh L rest (surf_list @ [snd dt])))"

text \<open>Lines 71 to 78: the replicated surfaces and the physical group "Lamination".\<close>

definition angular_replicator :: "backend \<Rightarrow> real \<Rightarrow> int \<Rightarrow> int list run" where
  "angular_replicator gmsh L Zs' =
     bind (copy_rotate gmsh L [0..Zs' - 1] [1]) (\<lambda>surf_list.
     bind (invoke gmsh (AddPhysicalGroup 2 surf_list 2)) (\<lambda>_.
     bind (invoke gmsh (SetPhysicalName 2 2 ''Lamination'')) (\<lambda>_.
     return surf_list)))"

text \<open>Lines 81 and 82: one extrusion per element of \<open>surf_list\<close>; the result is dropped.\<close>

fun axial_extruder :: "backend \<Rightarrow> real \<Rightarrow> int \<Rightarrow> int list \<Rightarrow> unit run" where
  "axial_extruder gmsh L Nlayer [] = return ()"
| "axial_extruder gmsh L Nlayer (surf # rest) =
     bind (invoke gmsh (Extrude [(2, surf)] 0 0 L [Nlayer]))
       (\<lambda>ov. axial_extruder gmsh L Nlayer rest)"

text \<open>
  Lines 83 to 95: the physical group of the volumes \<^verbatim>\<open>list(range(1, Zs + 1))\<close>, its
  name, then synchronize, generate, write, finalize.
\<close>

definition region_tagger :: "backend \<Rightarrow> int \<Rightarrow> bool \<Rightarrow> string \<Rightarrow> unit run" where
  "region_tagger gmsh Zs' stator save_path =
     bind (invoke gmsh (AddPhysicalGroup 3 [1..Zs'] 1)) (\<lambda>_.
     bind (if stator then invoke gmsh (SetPhysicalName 3 1 ''stator'')
           else invoke gmsh (SetPhysicalName 3 1 ''rotor'')) (\<lambda>_.
     bind (invoke gmsh Synchronize) (\<lambda>_.
     bind (invoke gmsh (MeshGenerate 3)) (\<lambda>_.
     bind (invoke gmsh (Write save_path)) (\<lambda>_.
     bind (invoke gmsh Finalize) (\<lambda>_.
     return ()))))))"

text \<open>
  The whole function. Lines 24 to 30 read the lamination; \<open>argv\<close> is \<^verbatim>\<open>sys.argv\<close>,
  handed to \<^verbatim>\<open>gmsh.initialize\<close>. The run starts on an empty list of calls; its value
  is the calls made and how it ended.
\<close>

definition gen_3D_mesh ::
  "backend \<Rightarrow> string list \<Rightarrow> LamSlot \<Rightarrow> string \<Rightarrow> real \<Rightarrow> int \<Rightarrow> call list \<times> (error + unit)" where
  "gen_3D_mesh gmsh argv lamination save_path mesh_size Nlayer =
     (case get_surface_tooth (slot lamination) of
        None \<Rightarrow> ([], Inl LaminationError)
      | Some tooth_surf \<Rightarrow>
     (case L1 lamination of
        None \<Rightarrow> ([], Inl LaminationError)
      | Some L \<Rightarrow>
     (case Zs (slot lamination) of
        None \<Rightarrow> ([], Inl LaminationError)
      | Some Zs' \<Rightarrow>
          (bind (invoke gmsh (Initialize argv)) (\<lambda>_.
           bind (invoke gmsh (OptionSetNumber ''General.Terminal'' 1)) (\<lambda>_.
           bind (invoke gmsh (ModelAdd ''Pyleecan'')) (\<lambda>_.
           bind (planar_loop_builder gmsh L mesh_size tooth_surf) (\<lambda>_.
           bind (angular_replicator gmsh L Zs') (\<lambda>surf_list.
           bind (axial_extruder gmsh L Nlayer surf_list) (\<lambda>_.
           region_tagger gmsh Zs' (is_stator lamination) save_path))))))) [])))"

section \<open>Observations on the calls of a run\<close>

text \<open>The calls a part of a run adds to the calls made before it.\<close>

definition new_calls :: "call list \<Rightarrow> call list \<Rightarrow> call list" where
  "new_calls h h' = drop (length h) h'"

fun is_AddPoint :: "call \<Rightarrow> bool" where
  "is_AddPoint (AddPoint x y z s t) = True"
| "is_AddPoint other = False"

text \<open>
  A curve is a line or a circle arc. It runs from its first point to its last point
  (the centre of an arc is its second argument) and carries a tag.
\<close>

fun is_curve :: "call \<Rightarrow> bool" where
  "is_curve (AddLine a b t) = True"
| "is_curve (AddCircleArc a c b t) = True"
| "is_curve other = False"

fun curve_begin :: "call \<Rightarrow> int" where
  "curve_begin (AddLine a b t) = a"
| "curve_begin (AddCircleArc a c b t) = a"
| "curve_begin other = 0"

fun curve_end :: "call \<Rightarrow> int" where
  "curve_end (AddLine a b t) = b"
| "curve_end (AddCircleArc a c b t) = b"
| "curve_end other = 0"

fun curve_tag :: "call \<Rightarrow> int" where
  "curve_tag (AddLine a b t) = t"
| "curve_tag (AddCircleArc a c b t) = t"
| "curve_tag other = 0"

definition curves :: "call list \<Rightarrow> call list" where
  "curves t = filter is_curve t"

definition curve_info :: "call \<Rightarrow> int \<times> int \<times> int" where
  "curve_info c = (curve_begin c, curve_end c, curve_tag c)"

fun is_AddCurveLoop :: "call \<Rightarrow> bool" where
  "is_AddCurveLoop (AddCurveLoop l t) = True"
| "is_AddCurveLoop other = False"

fun is_Copy :: "call \<Rightarrow> bool" where
  "is_Copy (Copy ds) = True"
| "is_Copy other = False"

fun is_Rotate :: "call \<Rightarrow> bool" where
  "is_Rotate (Rotate ds x y z ax ay az angle) = True"
| "is_Rotate other = False"

fun is_Extrude :: "call \<Rightarrow> bool" where
  "is_Extrude (Extrude ds dx dy dz ns) = True"
| "is_Extrude other = False"

fun is_volume_group :: "call \<Rightarrow> bool" where
  "is_volume_group (AddPhysicalGroup d tags t) = (d = 3)"
| "is_volume_group other = False"






text \<open>
  What one pass of the loop of lines 46 to 63 hands to the backend when it succeeds,
  and the begin, end and tag of the curve of pass \<open>j\<close>; both are used in the proofs only.
\<close>

definition drawn :: "real \<Rightarrow> real \<Rightarrow> int \<Rightarrow> line \<Rightarrow> int \<Rightarrow> int \<Rightarrow> call list" where
  "drawn L ms n s k p =
     (if isinstance_Arc s
      then [AddPoint (Re (get_center s)) (Im (get_center s)) (- L / 2) ms (p + 1),
            AddCircleArc (k + 1) (if k + 1 = n then p else p + 1)
              (if k + 1 = n then 1 else k + 1 + 1) (k + 1)]
      else [AddLine (k + 1) (if k + 1 = n then 1 else k + 1 + 1) (k + 1)])"

definition closing :: "int \<Rightarrow> int \<Rightarrow> int \<times> int \<times> int" where
  "closing n j = (j, if j = n then 1 else j + 1, j)"





text \<open>A segment of another kind, read as the straight segment with the same ends.\<close>

fun as_line :: "line \<Rightarrow> line" where
  "as_line (Other b e) = Segment b e"
| "as_line (Segment b e) = Segment b e"
| "as_line (Arc b e c) = Arc b e c"

section \<open>Properties of runs\<close>

text \<open>
  \<open>emits K m\<close>: whatever the outcome, \<open>m\<close> only appends calls, and each of them
  satisfies \<open>K\<close>.
\<close>

definition emits :: "(call \<Rightarrow> bool) \<Rightarrow> 'a run \<Rightarrow> bool" where
  "emits K m = (\<forall>h. \<exists>ys. fst (m h) = h @ ys \<and> list_all K ys)"

text \<open>
  \<open>closes m\<close>: started before any \<open>Finalize\<close>, a run of \<open>m\<close> that succeeds has
  \<open>Finalize\<close> as its last call, and a run that fails anywhere but in \<open>Finalize\<close>
  itself has not called it.
\<close>

definition closes :: "unit run \<Rightarrow> bool" where
  "closes m =
     (\<forall>h. Finalize \<notin> set h \<longrightarrow>
        (snd (m h) = Inr () \<longrightarrow> fst (m h) \<noteq> [] \<and> last (fst (m h)) = Finalize) \<and>
        (snd (m h) \<noteq> Inr () \<and> snd (m h) \<noteq> Inl (BackendError Finalize) \<longrightarrow>
           Finalize \<notin> set (fst (m h))))"



section \<open>A recording fake and sample laminations\<close>

text \<open>
  A backend that never raises and numbers the copies of the tooth surface 2, 3, ... in
  the order they are made; and one that raises in a chosen call.
\<close>

definition recording_fake :: backend where
  "recording_fake h c =
     (case c of
        Copy ds \<Rightarrow> Some [(2, 2 + int (length (filter is_Copy h)))]
      | _ \<Rightarrow> Some [])"

definition failing_at :: "call \<Rightarrow> backend" where
  "failing_at c0 h c = (if c = c0 then None else recording_fake h c)"

definition mk_surface :: "line list \<Rightarrow> SurfLine" where
  "mk_surface segs = \<lparr>get_lines = Some segs\<rparr>"

definition mk_lamination :: "line list \<Rightarrow> real \<Rightarrow> int \<Rightarrow> bool \<Rightarrow> LamSlot" where
  "mk_lamination segs L n stator =
     \<lparr>slot = \<lparr>get_surface_tooth = Some (mk_surface segs), Zs = Some n\<rparr>,
      L1 = Some L, is_stator = stator\<rparr>"

text \<open>
  A unit square of four straight segments; a half disc closed by an arc; a triangle
  with one side of another kind.
\<close>

definition unit_square :: "line list" where
  "unit_square =
     [Segment 0 1, Segment 1 (Complex 1 1), Segment (Complex 1 1) \<i>, Segment \<i> 0]"

definition half_disc :: "line list" where
  "half_disc = [Segment 0 1, Arc 1 0 (1 / 2)]"

definition odd_triangle :: "line list" where
  "odd_triangle = [Segment 0 1, Other 1 \<i>, Segment \<i> 0]"

text \<open>A lamination whose tooth surface raises in \<^verbatim>\<open>get_lines()\<close>.\<close>

definition broken_surface_lamination :: LamSlot where
  "broken_surface_lamination =
     \<lparr>slot = \<lparr>get_surface_tooth = Some \<lparr>get_lines = None\<rparr>, Zs = Some 6\<rparr>,
      L1 = Some (1 / 10), is_stator = True\<rparr>"

section \<open>Rules for runs\<close>

lemma bind_Inr:
  "bind m f h = (h'', Inr y) \<longleftrightarrow> (\<exists>h' x. m h = (h', Inr x) \<and> f x h' = (h'', Inr y))"
  by (auto simp: bind_def split: prod.splits sum.splits)

lemma invoke_Inr: "invoke gmsh c h = (h', Inr r) \<longleftrightarrow> h' = h @ [c] \<and> gmsh h c = Some r"
  by (auto simp: invoke_def split: option.splits)

lemma return_Inr: "return x h = (h', Inr y) \<longleftrightarrow> h' = h \<and> y = x"
  by (auto simp: return_def)

lemma bind_return: "bind (return x) f = f x"
  by (simp add: bind_def return_def fun_eq_iff)

lemma bind_raise: "bind (raise e) f = raise e"
  by (simp add: bind_def raise_def fun_eq_iff)

lemma call_get_lines_Some: "get_lines ts = Some ls \<Longrightarrow> call_get_lines ts = return ls"
  by (simp add: call_get_lines_def)

lemma call_get_lines_None: "get_lines ts = None \<Longrightarrow> call_get_lines ts = raise GetLinesError"
  by (simp add: call_get_lines_def)

subsection \<open>What a run appends\<close>

lemma emitsD: "emits K m \<Longrightarrow> \<exists>ys. fst (m h) = h @ ys \<and> list_all K ys"
  by (simp add: emits_def)

lemma emits_return: "emits K (return x)"
  by (simp add: emits_def return_def)

lemma emits_raise: "emits K (raise e)"
  by (simp add: emits_def raise_def)

lemma emits_invoke: "K c \<Longrightarrow> emits K (invoke gmsh c)"
  by (simp add: emits_def invoke_def split: option.splits)

lemma emits_bind:
  assumes m: "emits K m" and f: "\<And>x. emits K (f x)"
  shows "emits K (bind m f)"
  unfolding emits_def
proof
  fix h
  obtain ys where ys: "fst (m h) = h @ ys" "list_all K ys"
    using emitsD [OF m] by blast
  show "\<exists>zs. fst (bind m f h) = h @ zs \<and> list_all K zs"
  proof (cases "m h")
    case (Pair h' r)
    with ys have h': "h' = h @ ys" by simp
    show ?thesis
    proof (cases r)
      case (Inl e)
      with Pair h' ys show ?thesis by (simp add: bind_def)
    next
      case (Inr x)
      obtain zs where zs: "fst (f x h') = h' @ zs" "list_all K zs"
        using emitsD [OF f] by blast
      with Pair Inr h' ys show ?thesis by (simp add: bind_def)
    qed
  qed
qed

lemma emits_filter:
  assumes "emits K m" and "\<And>c. K c \<Longrightarrow> \<not> P c"
  shows "filter P (fst (m h)) = filter P h"
proof -
  obtain ys where ys: "fst (m h) = h @ ys" "list_all K ys"
    using emitsD [OF assms(1)] by blast
  from ys(2) assms(2) have "filter P ys = []"
    by (auto simp: filter_empty_conv list_all_iff)
  with ys(1) show ?thesis by simp
qed

lemma emits_call_get_lines: "emits K (call_get_lines ts)"
  by (cases "get_lines ts") (simp_all add: call_get_lines_def emits_return emits_raise)

lemma emits_if: "emits K m1 \<Longrightarrow> emits K m2 \<Longrightarrow> emits K (if c then m1 else m2)"
  by simp

lemma emits_create_points:
  "(\<And>x y z s t. K (AddPoint x y z s t)) \<Longrightarrow> emits K (create_points gmsh L ms segs n)"
  by (induction segs arbitrary: n) (simp_all add: emits_return emits_bind emits_invoke Let_def)

lemma emits_draw_lines:
  "(\<And>x y z s t. K (AddPoint x y z s t)) \<Longrightarrow> (\<And>a b t. K (AddLine a b t)) \<Longrightarrow>
   (\<And>a b c t. K (AddCircleArc a b c t)) \<Longrightarrow> emits K (draw_lines gmsh L ms ts segs k p)"
proof (induction segs arbitrary: k p)
  case Nil
  show ?case by (simp add: emits_return)
next
  case (Cons s segs)
  show ?case
    unfolding draw_lines.simps Let_def
    by (intro emits_bind emits_call_get_lines emits_if emits_invoke Cons)
qed

lemma emits_copy_rotate:
  "(\<And>ds. K (Copy ds)) \<Longrightarrow> (\<And>ds a b c d e f g. K (Rotate ds a b c d e f g)) \<Longrightarrow>
   emits K (copy_rotate gmsh L is sl)"
  by (induction "is" arbitrary: sl)
    (auto intro!: emits_bind emits_invoke emits_return emits_raise split: list.splits)

lemma emits_axial_extruder:
  "(\<And>ds a b c ns. K (Extrude ds a b c ns)) \<Longrightarrow> emits K (axial_extruder gmsh L nl sl)"
  by (induction sl) (simp_all add: emits_return emits_bind emits_invoke)

lemma emits_planar_loop_builder:
  "emits (\<lambda>c. c \<noteq> Finalize) (planar_loop_builder gmsh L ms segs)"
  unfolding planar_loop_builder_def
  by (intro emits_bind emits_invoke emits_return emits_create_points emits_draw_lines
      emits_call_get_lines allI impI
      | simp split: prod.splits)+

lemma emits_angular_replicator:
  "emits (\<lambda>c. c \<noteq> Finalize) (angular_replicator gmsh L n)"
  unfolding angular_replicator_def
  by (intro emits_bind emits_invoke emits_return emits_copy_rotate) simp_all

lemma grows_planar_loop_builder:
  "\<exists>ys. fst (planar_loop_builder gmsh L ms ts h) = h @ ys"
  using emitsD [OF emits_planar_loop_builder, of gmsh L ms ts h] by blast

subsection \<open>The tooth, when it is built\<close>

lemma create_points_keeps:
  assumes "\<And>c. is_AddPoint c \<Longrightarrow> \<not> P c"
  shows "filter P (fst (create_points gmsh L ms segs n h)) = filter P h"
  by (rule emits_filter [where K = is_AddPoint]) (simp_all add: emits_create_points assms)

lemma draw_lines_Cons_Inr:
  "get_lines ts = Some ls \<Longrightarrow> draw_lines gmsh L ms ts (s # segs) k p h = (h', Inr r) \<Longrightarrow>
   draw_lines gmsh L ms ts segs (k + 1) (if isinstance_Arc s then p + 1 else p)
     (h @ drawn L ms (int (length ls)) s k p) = (h', Inr r)"
  by (auto simp: Let_def call_get_lines_Some bind_return bind_Inr invoke_Inr drawn_def
      split: if_splits)

lemma drawn_curves:
  "filter is_AddCurveLoop (drawn L ms n s k p) = []"
  "map curve_info (filter is_curve (drawn L ms n s k p)) = [closing n (k + 1)]"
  by (simp_all add: drawn_def curve_info_def closing_def)

lemma draw_lines_Inr:
  "get_lines ts = Some ls \<Longrightarrow> draw_lines gmsh L ms ts segs k p h = (h', Inr (k', p')) \<Longrightarrow>
   k' = k + int (length segs) \<and>
   filter is_AddCurveLoop h' = filter is_AddCurveLoop h \<and>
   map curve_info (filter is_curve h') =
     map curve_info (filter is_curve h) @
     map (closing (int (length ls))) [k + 1..k + int (length segs)]"
proof (induction segs arbitrary: k p h)
  case Nil
  then show ?case by (simp add: return_Inr)
next
  case (Cons s segs)
  have up: "[k + 1..k + int (length (s # segs))] = (k + 1) # [k + 1 + 1..k + 1 + int (length segs)]"
    by (simp add: upto_rec1 algebra_simps)
  from Cons.IH [OF Cons.prems(1) draw_lines_Cons_Inr [OF Cons.prems]] show ?case
    unfolding up by (simp add: drawn_curves)
qed

lemma planar_loop_builder_Inr:
  assumes ls: "get_lines ts = Some segs"
    and run: "planar_loop_builder gmsh L ms ts h = (h', Inr u)"
  shows "filter is_AddCurveLoop h' =
           filter is_AddCurveLoop h @ [AddCurveLoop [1..int (length segs)] 1]"
    and "map curve_info (filter is_curve h') =
           map curve_info (filter is_curve h) @
           map (closing (int (length segs))) [1..int (length segs)]"
proof -
  from run obtain h1 p1 h2 k2 p2 where
    pts: "create_points gmsh L ms segs 0 h = (h1, Inr p1)" and
    drw: "draw_lines gmsh L ms ts segs 0 p1 h1 = (h2, Inr (k2, p2))" and
    h': "h' = h2 @ [AddCurveLoop [1..k2] 1, AddPlaneSurface [1] 1,
                    AddPhysicalGroup 2 [1] 1, SetPhysicalName 2 1 ''Tooth'']"
    by (auto simp: planar_loop_builder_def call_get_lines_Some [OF ls] bind_return
        bind_Inr invoke_Inr return_Inr)
  have "filter is_AddCurveLoop (fst (create_points gmsh L ms segs 0 h)) = filter is_AddCurveLoop h"
    by (rule create_points_keeps, case_tac c) simp_all
  with pts have l1: "filter is_AddCurveLoop h1 = filter is_AddCurveLoop h"
    by simp
  have "filter is_curve (fst (create_points gmsh L ms segs 0 h)) = filter is_curve h"
    by (rule create_points_keeps, case_tac c) simp_all
  with pts have c1: "filter is_curve h1 = filter is_curve h"
    by simp
  note d = draw_lines_Inr [OF ls drw]
  from d l1 h' show "filter is_AddCurveLoop h' =
      filter is_AddCurveLoop h @ [AddCurveLoop [1..int (length segs)] 1]"
    by simp
  from d c1 h' show "map curve_info (filter is_curve h') =
      map curve_info (filter is_curve h) @
      map (closing (int (length segs))) [1..int (length segs)]"
    by simp
qed

lemma hd_map_upto1: "1 \<le> n \<Longrightarrow> hd (map f [1..n]) = f 1"
  by (simp add: upto_rec1)

lemma last_map_upto1: "1 \<le> n \<Longrightarrow> last (map f [1..n]) = f n"
  by (simp add: upto_rec2)

subsection \<open>The extrusions, when they succeed\<close>

lemma axial_extruder_Inr:
  "axial_extruder gmsh L Nlayer surf_list h = (h', Inr u) \<Longrightarrow>
   h' = h @ map (\<lambda>surf. Extrude [(2, surf)] 0 0 L [Nlayer]) surf_list"
proof (induction surf_list arbitrary: h)
  case Nil
  then show ?case by (simp add: return_Inr)
next
  case (Cons surf rest)
  from Cons.prems
  have "axial_extruder gmsh L Nlayer rest (h @ [Extrude [(2, surf)] 0 0 L [Nlayer]]) = (h', Inr u)"
    by (auto simp: bind_Inr invoke_Inr)
  from Cons.IH [OF this] show ?case by simp
qed

subsection \<open>Where Finalize is called\<close>

lemma closes_Finalize: "closes (bind (invoke gmsh Finalize) (\<lambda>_. return ()))"
  by (simp add: closes_def bind_def invoke_def return_def split: option.splits)

lemma closes_bind:
  assumes m: "emits (\<lambda>c. c \<noteq> Finalize) m" and f: "\<And>x. closes (f x)"
  shows "closes (bind m f)"
  unfolding closes_def
proof (intro allI impI)
  fix h
  assume h: "Finalize \<notin> set h"
  obtain ys where ys: "fst (m h) = h @ ys" "list_all (\<lambda>c. c \<noteq> Finalize) ys"
    using emitsD [OF m] by blast
  with h have h1: "Finalize \<notin> set (fst (m h))"
    by (auto simp: list_all_iff)
  show "(snd (bind m f h) = Inr () \<longrightarrow>
          fst (bind m f h) \<noteq> [] \<and> last (fst (bind m f h)) = Finalize) \<and>
        (snd (bind m f h) \<noteq> Inr () \<and> snd (bind m f h) \<noteq> Inl (BackendError Finalize) \<longrightarrow>
          Finalize \<notin> set (fst (bind m f h)))"
  proof (cases "m h")
    case (Pair h' r)
    with h1 have h': "Finalize \<notin> set h'" by simp
    show ?thesis
    proof (cases r)
      case (Inl e)
      with Pair h' show ?thesis by (simp add: bind_def)
    next
      case (Inr x)
      from f [of x] h' have
        "(snd (f x h') = Inr () \<longrightarrow> fst (f x h') \<noteq> [] \<and> last (fst (f x h')) = Finalize) \<and>
         (snd (f x h') \<noteq> Inr () \<and> snd (f x h') \<noteq> Inl (BackendError Finalize) \<longrightarrow>
            Finalize \<notin> set (fst (f x h')))"
        unfolding closes_def by blast
      with Pair Inr show ?thesis by (simp add: bind_def)
    qed
  qed
qed

lemma closes_region_tagger: "closes (region_tagger gmsh n stator save_path)"
  unfolding region_tagger_def
  by (intro closes_bind closes_Finalize emits_invoke | simp add: emits_invoke)+

lemma closes_pipeline:
  "closes
     (bind (invoke gmsh (Initialize argv)) (\<lambda>_.
      bind (invoke gmsh (OptionSetNumber ''General.Terminal'' 1)) (\<lambda>_.
      bind (invoke gmsh (ModelAdd ''Pyleecan'')) (\<lambda>_.
      bind (planar_loop_builder gmsh L mesh_size tooth_surf) (\<lambda>_.
      bind (angular_replicator gmsh L n) (\<lambda>surf_list.
      bind (axial_extruder gmsh L Nlayer surf_list) (\<lambda>_.
      region_tagger gmsh n stator save_path)))))))"
  by (intro closes_bind closes_region_tagger emits_invoke emits_planar_loop_builder
        emits_angular_replicator emits_axial_extruder) simp_all

subsection \<open>Segments of another kind\<close>

lemma as_line_simps [simp]:
  "get_begin (as_line s) = get_begin s"
  "isinstance_Arc (as_line s) = isinstance_Arc s"
  "isinstance_Arc s \<Longrightarrow> get_center (as_line s) = get_center s"
  by (cases s; simp)+

lemma create_points_as_line:
  "create_points gmsh L ms (map as_line segs) n = create_points gmsh L ms segs n"
  by (induction segs arbitrary: n) simp_all

lemma call_get_lines_as_line:
  "call_get_lines \<lparr>get_lines = map_option (map as_line) ls\<rparr> =
   (case ls of None \<Rightarrow> raise GetLinesError | Some segs \<Rightarrow> return (map as_line segs))"
  "call_get_lines \<lparr>get_lines = ls\<rparr> =
   (case ls of None \<Rightarrow> raise GetLinesError | Some segs \<Rightarrow> return segs)"
  by (cases ls; simp add: call_get_lines_def)+

lemma draw_lines_as_line:
  "draw_lines gmsh L ms \<lparr>get_lines = map_option (map as_line) ls\<rparr> (map as_line segs) k p =
   draw_lines gmsh L ms \<lparr>get_lines = ls\<rparr> segs k p"
proof (cases ls)
  case None
  then show ?thesis
    by (cases segs) (simp_all add: call_get_lines_def bind_raise Let_def)
next
  case (Some all_segs)
  show ?thesis
    by (induction segs arbitrary: k p)
      (simp_all add: Some call_get_lines_def bind_return Let_def)
qed

lemma planar_loop_builder_as_line:
  "planar_loop_builder gmsh L ms \<lparr>get_lines = map_option (map as_line) ls\<rparr> =
   planar_loop_builder gmsh L ms \<lparr>get_lines = ls\<rparr>"
  by (cases ls)
    (simp_all add: planar_loop_builder_def call_get_lines_def bind_raise bind_return
      create_points_as_line draw_lines_as_line [of _ _ _ "Some _", simplified])

subsection \<open>Replaying a run against another backend\<close>



















subsection \<open>The calls of a run that succeeds\<close>








subsection \<open>What the expected calls hold\<close>








subsection \<open>The first call of a run\<close>

lemma emits_mono: "emits K m \<Longrightarrow> (\<And>c. K c \<Longrightarrow> K' c) \<Longrightarrow> emits K' m"
  unfolding emits_def by (metis list.pred_mono_strong)

lemma emits_region_tagger: "emits (\<lambda>c. True) (region_tagger gmsh n stator save_path)"
  unfolding region_tagger_def
  by (intro emits_bind emits_invoke emits_return emits_if) simp_all

lemma bind_invoke_first:
  assumes "\<And>x. emits K (f x)"
  shows "\<exists>ys. fst (bind (invoke gmsh c) f h) = h @ c # ys"
proof (cases "gmsh h c")
  case None
  then show ?thesis by (simp add: bind_def invoke_def)
next
  case (Some r)
  obtain ys where "fst (f r (h @ [c])) = (h @ [c]) @ ys"
    using emitsD [OF assms] by blast
  with Some show ?thesis by (simp add: bind_def invoke_def)
qed

lemma gen_3D_mesh_first_call:
  assumes "get_surface_tooth (slot lamination) = Some ts" "L1 lamination = Some L"
    "Zs (slot lamination) = Some n"
  shows "\<exists>ys. fst (gen_3D_mesh gmsh argv lamination save_path ms nl) = Initialize argv # ys"
proof -
  have "emits (\<lambda>c. True)
     (bind (invoke gmsh (OptionSetNumber ''General.Terminal'' 1)) (\<lambda>_.
      bind (invoke gmsh (ModelAdd ''Pyleecan'')) (\<lambda>_.
      bind (planar_loop_builder gmsh L ms ts) (\<lambda>_.
      bind (angular_replicator gmsh L n) (\<lambda>surf_list.
      bind (axial_extruder gmsh L nl surf_list) (\<lambda>_.
      region_tagger gmsh n (is_stator lamination) save_path))))))"
    by (intro emits_bind emits_invoke emits_region_tagger emits_axial_extruder
        emits_mono [OF emits_planar_loop_builder] emits_mono [OF emits_angular_replicator])
      simp_all
  from bind_invoke_first [where K = "\<lambda>c. True" and h = "[]", OF this] assms
  show ?thesis by (simp add: gen_3D_mesh_def)
qed

lemma gen_3D_mesh_get_lines_fails:
  assumes "get_surface_tooth (slot lamination) = Some ts" "L1 lamination = Some L"
    "Zs (slot lamination) = Some n" "get_lines ts = None"
  shows "gen_3D_mesh gmsh argv lamination save_path ms nl =
     (bind (invoke gmsh (Initialize argv)) (\<lambda>_.
      bind (invoke gmsh (OptionSetNumber ''General.Terminal'' 1)) (\<lambda>_.
      bind (invoke gmsh (ModelAdd ''Pyleecan'')) (\<lambda>_. raise GetLinesError)))) []"
  using assms
  by (simp add: gen_3D_mesh_def planar_loop_builder_def call_get_lines_None bind_raise)

section \<open>Sample runs\<close>

lemmas run_simps =
  gen_3D_mesh_def mk_lamination_def planar_loop_builder_def angular_replicator_def
  call_get_lines_def mk_surface_def region_tagger_def bind_def invoke_def return_def raise_def
  recording_fake_def failing_at_def upto_rec1

lemma unit_square_run:
  "gen_3D_mesh recording_fake argv (mk_lamination unit_square (1 / 10) 6 True)
     ''Lamination.msh'' (1 / 200) 2 =
   ([Initialize argv, OptionSetNumber ''General.Terminal'' 1, ModelAdd ''Pyleecan'',
     AddPoint 0 0 (- (1 / 10) / 2) (1 / 200) 1, AddPoint 1 0 (- (1 / 10) / 2) (1 / 200) 2,
     AddPoint 1 1 (- (1 / 10) / 2) (1 / 200) 3, AddPoint 0 1 (- (1 / 10) / 2) (1 / 200) 4,
     AddLine 1 2 1, AddLine 2 3 2, AddLine 3 4 3, AddLine 4 1 4,
     AddCurveLoop [1, 2, 3, 4] 1, AddPlaneSurface [1] 1,
     AddPhysicalGroup 2 [1] 1, SetPhysicalName 2 1 ''Tooth'',
     Copy [(2, 1)], Rotate [(2, 2)] 0 0 (- (1 / 10) / 2) 0 0 1 (1 * 2 * pi / 36),
     Copy [(2, 1)], Rotate [(2, 3)] 0 0 (- (1 / 10) / 2) 0 0 1 (2 * 2 * pi / 36),
     Copy [(2, 1)], Rotate [(2, 4)] 0 0 (- (1 / 10) / 2) 0 0 1 (3 * 2 * pi / 36),
     Copy [(2, 1)], Rotate [(2, 5)] 0 0 (- (1 / 10) / 2) 0 0 1 (4 * 2 * pi / 36),
     Copy [(2, 1)], Rotate [(2, 6)] 0 0 (- (1 / 10) / 2) 0 0 1 (5 * 2 * pi / 36),
     Copy [(2, 1)], Rotate [(2, 7)] 0 0 (- (1 / 10) / 2) 0 0 1 (6 * 2 * pi / 36),
     AddPhysicalGroup 2 [1, 2, 3, 4, 5, 6, 7] 2, SetPhysicalName 2 2 ''Lamination'',
     Extrude [(2, 1)] 0 0 (1 / 10) [2], Extrude [(2, 2)] 0 0 (1 / 10) [2],
     Extrude [(2, 3)] 0 0 (1 / 10) [2], Extrude [(2, 4)] 0 0 (1 / 10) [2],
     Extrude [(2, 5)] 0 0 (1 / 10) [2], Extrude [(2, 6)] 0 0 (1 / 10) [2],
     Extrude [(2, 7)] 0 0 (1 / 10) [2],
     AddPhysicalGroup 3 [1, 2, 3, 4, 5, 6] 1, SetPhysicalName 3 1 ''stator'',
     Synchronize, MeshGenerate 3, Write ''Lamination.msh'', Finalize],
    Inr ())"
  by (simp add: run_simps unit_square_def)

lemma half_disc_tooth:
  "planar_loop_builder recording_fake (1 / 10) (1 / 200) (mk_surface half_disc) [] =
   ([AddPoint 0 0 (- (1 / 10) / 2) (1 / 200) 1, AddPoint 1 0 (- (1 / 10) / 2) (1 / 200) 2,
     AddLine 1 2 1,
     AddPoint (1 / 2) 0 (- (1 / 10) / 2) (1 / 200) 3, AddCircleArc 2 2 1 2,
     AddCurveLoop [1, 2] 1, AddPlaneSurface [1] 1,
     AddPhysicalGroup 2 [1] 1, SetPhysicalName 2 1 ''Tooth''],
    Inr ())"
  by (simp add: run_simps half_disc_def)

lemma half_disc_run_generate_fails:
  "gen_3D_mesh (failing_at (MeshGenerate 3)) [''mesh''] (mk_lamination half_disc (1 / 10) 2 False)
     ''Lamination.msh'' (1 / 200) 2 =
   ([Initialize [''mesh''], OptionSetNumber ''General.Terminal'' 1, ModelAdd ''Pyleecan'',
     AddPoint 0 0 (- (1 / 10) / 2) (1 / 200) 1, AddPoint 1 0 (- (1 / 10) / 2) (1 / 200) 2,
     AddLine 1 2 1,
     AddPoint (1 / 2) 0 (- (1 / 10) / 2) (1 / 200) 3, AddCircleArc 2 2 1 2,
     AddCurveLoop [1, 2] 1, AddPlaneSurface [1] 1,
     AddPhysicalGroup 2 [1] 1, SetPhysicalName 2 1 ''Tooth'',
     Copy [(2, 1)], Rotate [(2, 2)] 0 0 (- (1 / 10) / 2) 0 0 1 (1 * 2 * pi / 36),
     Copy [(2, 1)], Rotate [(2, 3)] 0 0 (- (1 / 10) / 2) 0 0 1 (2 * 2 * pi / 36),
     AddPhysicalGroup 2 [1, 2, 3] 2, SetPhysicalName 2 2 ''Lamination'',
     Extrude [(2, 1)] 0 0 (1 / 10) [2], Extrude [(2, 2)] 0 0 (1 / 10) [2],
     Extrude [(2, 3)] 0 0 (1 / 10) [2],
     AddPhysicalGroup 3 [1, 2] 1, SetPhysicalName 3 1 ''rotor'',
     Synchronize, MeshGenerate 3],
    Inl (BackendError (MeshGenerate 3)))"
  by (simp add: run_simps half_disc_def)

lemma half_disc_run_write_fails:
  "gen_3D_mesh (failing_at (Write ''Lamination.msh'')) [''mesh'']
     (mk_lamination half_disc (1 / 10) 2 False) ''Lamination.msh'' (1 / 200) 2 =
   ([Initialize [''mesh''], OptionSetNumber ''General.Terminal'' 1, ModelAdd ''Pyleecan'',
     AddPoint 0 0 (- (1 / 10) / 2) (1 / 200) 1, AddPoint 1 0 (- (1 / 10) / 2) (1 / 200) 2,
     AddLine 1 2 1,
     AddPoint (1 / 2) 0 (- (1 / 10) / 2) (1 / 200) 3, AddCircleArc 2 2 1 2,
     AddCurveLoop [1, 2] 1, AddPlaneSurface [1] 1,
     AddPhysicalGroup 2 [1] 1, SetPhysicalName 2 1 ''Tooth'',
     Copy [(2, 1)], Rotate [(2, 2)] 0 0 (- (1 / 10) / 2) 0 0 1 (1 * 2 * pi / 36),
     Copy [(2, 1)], Rotate [(2, 3)] 0 0 (- (1 / 10) / 2) 0 0 1 (2 * 2 * pi / 36),
     AddPhysicalGroup 2 [1, 2, 3] 2, SetPhysicalName 2 2 ''Lamination'',
     Extrude [(2, 1)] 0 0 (1 / 10) [2], Extrude [(2, 2)] 0 0 (1 / 10) [2],
     Extrude [(2, 3)] 0 0 (1 / 10) [2],
     AddPhysicalGroup 3 [1, 2] 1, SetPhysicalName 3 1 ''rotor'',
     Synchronize, MeshGenerate 3, Write ''Lamination.msh''],
    Inl (BackendError (Write ''Lamination.msh'')))"
  by (simp add: run_simps half_disc_def)

lemma broken_surface_run:
  "gen_3D_mesh recording_fake argv broken_surface_lamination ''Lamination.msh'' (1 / 200) 2 =
   ([Initialize argv, OptionSetNumber ''General.Terminal'' 1, ModelAdd ''Pyleecan''],
    Inl GetLinesError)"
  by (simp add: run_simps broken_surface_lamination_def)

lemma six_copies:
  "angular_replicator recording_fake (1 / 10) 6 [] =
   ([Copy [(2, 1)], Rotate [(2, 2)] 0 0 (- (1 / 10) / 2) 0 0 1 (1 * 2 * pi / 36),
     Copy [(2, 1)], Rotate [(2, 3)] 0 0 (- (1 / 10) / 2) 0 0 1 (2 * 2 * pi / 36),
     Copy [(2, 1)], Rotate [(2, 4)] 0 0 (- (1 / 10) / 2) 0 0 1 (3 * 2 * pi / 36),
     Copy [(2, 1)], Rotate [(2, 5)] 0 0 (- (1 / 10) / 2) 0 0 1 (4 * 2 * pi / 36),
     Copy [(2, 1)], Rotate [(2, 6)] 0 0 (- (1 / 10) / 2) 0 0 1 (5 * 2 * pi / 36),
     Copy [(2, 1)], Rotate [(2, 7)] 0 0 (- (1 / 10) / 2) 0 0 1 (6 * 2 * pi / 36),
     AddPhysicalGroup 2 [1, 2, 3, 4, 5, 6, 7] 2, SetPhysicalName 2 2 ''Lamination''],
    Inr [1, 2, 3, 4, 5, 6, 7])"
  by (simp add: run_simps)

section \<open>The claims\<close>

text \<open>
  C1. The claim: for a replication count of N the replicator yields N surfaces, the
  original and N - 1 rotated copies, and for N = 1 it makes no copy. The loop of line 73
  runs over \<^verbatim>\<open>range(Zs)\<close> on top of the original: with \<open>Zs = 1\<close> it makes one rotated copy
  and the group "Lamination" holds two surfaces; with \<open>Zs = 6\<close> it makes six copies and
  the group holds seven surfaces.
\<close>

theorem replicator_one_copy_too_many:
  "angular_replicator recording_fake (1 / 10) 1 [] =
     ([Copy [(2, 1)], Rotate [(2, 2)] 0 0 (- (1 / 10) / 2) 0 0 1 (1 * 2 * pi / 36),
       AddPhysicalGroup 2 [1, 2] 2, SetPhysicalName 2 2 ''Lamination''],
      Inr [1, 2]) \<and>
   length (filter is_Copy (fst (angular_replicator recording_fake (1 / 10) 6 []))) = 6 \<and>
   snd (angular_replicator recording_fake (1 / 10) 6 []) = Inr [1, 2, 3, 4, 5, 6, 7]"
  by (simp add: six_copies) (simp add: run_simps)

text \<open>
  C2. The claim: copy \<open>i\<close> is rotated about the z axis through (0, 0, -L/2) by
  \<open>i * (2 pi / N)\<close>. The axis and its point are as claimed, but line 75 divides by the
  literal 36: with \<open>Zs = 6\<close> the six copies are turned by \<open>i * 2 pi / 36\<close> for
  \<open>i = 1, ..., 6\<close>, and the first copy is not turned by \<open>2 pi / 6\<close>.
\<close>

theorem rotation_pitch_is_a_36th:
  "filter is_Rotate (fst (angular_replicator recording_fake (1 / 10) 6 [])) =
     map (\<lambda>i. Rotate [(2, i + 1)] 0 0 (- (1 / 10) / 2) 0 0 1 (real_of_int i * 2 * pi / 36))
       [1, 2, 3, 4, 5, 6] \<and>
   Rotate [(2, 2)] 0 0 (- (1 / 10) / 2) 0 0 1 (1 * (2 * pi / 6)) \<notin>
     set (fst (angular_replicator recording_fake (1 / 10) 6 []))"
  by (simp add: six_copies)

text \<open>
  C3. The claim: when the last segment is an arc, the closing arc goes through the handle
  just given to its centre. On the half disc the centre of the closing arc is registered
  as point 3, and line 53 passes \<^verbatim>\<open>NPoint - 1\<close>, so the arc is created through point 2,
  its own start; the arc through (2, 3, 1) is not created.
\<close>

theorem closing_arc_misses_its_centre:
  "fst (planar_loop_builder recording_fake (1 / 10) (1 / 200) (mk_surface half_disc) []) =
     [AddPoint 0 0 (- (1 / 10) / 2) (1 / 200) 1, AddPoint 1 0 (- (1 / 10) / 2) (1 / 200) 2,
      AddLine 1 2 1,
      AddPoint (1 / 2) 0 (- (1 / 10) / 2) (1 / 200) 3, AddCircleArc 2 2 1 2,
      AddCurveLoop [1, 2] 1, AddPlaneSurface [1] 1,
      AddPhysicalGroup 2 [1] 1, SetPhysicalName 2 1 ''Tooth''] \<and>
   AddCircleArc 2 3 1 2 \<notin>
     set (fst (planar_loop_builder recording_fake (1 / 10) (1 / 200) (mk_surface half_disc) []))"
  by (simp add: half_disc_tooth)

text \<open>
  C4, as stated: a boundary with a segment that is neither a line nor an arc makes the
  run end in an error before any point or curve is created. It does not: the run on the
  triangle with such a side succeeds, with a point and a straight curve for that side.
\<close>

theorem other_kind_counterexample:
  "gen_3D_mesh recording_fake [''mesh''] (mk_lamination odd_triangle (1 / 10) 1 False)
     ''Lamination.msh'' (1 / 200) 2 =
   ([Initialize [''mesh''], OptionSetNumber ''General.Terminal'' 1, ModelAdd ''Pyleecan'',
     AddPoint 0 0 (- (1 / 10) / 2) (1 / 200) 1, AddPoint 1 0 (- (1 / 10) / 2) (1 / 200) 2,
     AddPoint 0 1 (- (1 / 10) / 2) (1 / 200) 3,
     AddLine 1 2 1, AddLine 2 3 2, AddLine 3 1 3,
     AddCurveLoop [1, 2, 3] 1, AddPlaneSurface [1] 1,
     AddPhysicalGroup 2 [1] 1, SetPhysicalName 2 1 ''Tooth'',
     Copy [(2, 1)], Rotate [(2, 2)] 0 0 (- (1 / 10) / 2) 0 0 1 (1 * 2 * pi / 36),
     AddPhysicalGroup 2 [1, 2] 2, SetPhysicalName 2 2 ''Lamination'',
     Extrude [(2, 1)] 0 0 (1 / 10) [2], Extrude [(2, 2)] 0 0 (1 / 10) [2],
     AddPhysicalGroup 3 [1] 1, SetPhysicalName 3 1 ''rotor'',
     Synchronize, MeshGenerate 3, Write ''Lamination.msh'', Finalize],
    Inr ())"
  by (simp add: run_simps odd_triangle_def)

text \<open>
  C4, amended: a segment that is neither a line nor an arc is not rejected. The run on a
  boundary is the run on the same boundary with every such segment replaced by the
  straight segment with the same ends: the same calls, the same outcome (also when
  \<^verbatim>\<open>get_lines()\<close> raises).
\<close>

theorem other_kind_handled_as_line:
  "gen_3D_mesh gmsh argv
     \<lparr>slot = \<lparr>get_surface_tooth = Some \<lparr>get_lines = lines\<rparr>, Zs = n\<rparr>,
      L1 = L, is_stator = stator\<rparr>
     save_path mesh_size Nlayer =
   gen_3D_mesh gmsh argv
     \<lparr>slot = \<lparr>get_surface_tooth = Some \<lparr>get_lines = map_option (map as_line) lines\<rparr>, Zs = n\<rparr>,
      L1 = L, is_stator = stator\<rparr>
     save_path mesh_size Nlayer"
  by (simp add: gen_3D_mesh_def planar_loop_builder_as_line split: option.splits)

text \<open>
  C5, as stated: the backend is finalized on every exit path, a failure of the mesh
  generation or of the write included. It is not: when the mesh generation raises, or
  when the write raises, the run ends there and \<open>Finalize\<close> is not among its calls.
\<close>

theorem finalize_skipped_counterexample:
  "snd (gen_3D_mesh (failing_at (MeshGenerate 3)) [''mesh'']
          (mk_lamination half_disc (1 / 10) 2 False) ''Lamination.msh'' (1 / 200) 2) =
     Inl (BackendError (MeshGenerate 3)) \<and>
   Finalize \<notin> set (fst (gen_3D_mesh (failing_at (MeshGenerate 3)) [''mesh'']
          (mk_lamination half_disc (1 / 10) 2 False) ''Lamination.msh'' (1 / 200) 2)) \<and>
   snd (gen_3D_mesh (failing_at (Write ''Lamination.msh'')) [''mesh'']
          (mk_lamination half_disc (1 / 10) 2 False) ''Lamination.msh'' (1 / 200) 2) =
     Inl (BackendError (Write ''Lamination.msh'')) \<and>
   Finalize \<notin> set (fst (gen_3D_mesh (failing_at (Write ''Lamination.msh'')) [''mesh'']
          (mk_lamination half_disc (1 / 10) 2 False) ''Lamination.msh'' (1 / 200) 2))"
  by (simp add: half_disc_run_generate_fails half_disc_run_write_fails)

text \<open>
  C5, amended: a run that completes has \<open>Finalize\<close> as its last call; a run that ends
  in a failure other than one of \<open>Finalize\<close> itself (a failed mesh generation and a failed
  write among them) has not called \<open>Finalize\<close>.
\<close>

theorem finalize_only_on_success:
  "(snd (gen_3D_mesh gmsh argv lamination save_path mesh_size Nlayer) = Inr () \<longrightarrow>
      fst (gen_3D_mesh gmsh argv lamination save_path mesh_size Nlayer) \<noteq> [] \<and>
      last (fst (gen_3D_mesh gmsh argv lamination save_path mesh_size Nlayer)) = Finalize) \<and>
   (snd (gen_3D_mesh gmsh argv lamination save_path mesh_size Nlayer) \<noteq> Inr () \<and>
    snd (gen_3D_mesh gmsh argv lamination save_path mesh_size Nlayer) \<noteq>
      Inl (BackendError Finalize) \<longrightarrow>
      Finalize \<notin> set (fst (gen_3D_mesh gmsh argv lamination save_path mesh_size Nlayer)))"
proof (cases "get_surface_tooth (slot lamination) = None \<or> L1 lamination = None
    \<or> Zs (slot lamination) = None")
  case True
  then have "gen_3D_mesh gmsh argv lamination save_path mesh_size Nlayer =
      ([], Inl LaminationError)"
    by (auto simp: gen_3D_mesh_def split: option.splits)
  then show ?thesis by simp
next
  case False
  then obtain tooth_surf L n where
    "get_surface_tooth (slot lamination) = Some tooth_surf" "L1 lamination = Some L"
    "Zs (slot lamination) = Some n"
    by auto
  then show ?thesis
    using closes_pipeline [of gmsh argv L mesh_size tooth_surf n Nlayer
        "is_stator lamination" save_path]
    unfolding closes_def gen_3D_mesh_def by simp
qed

theorem finalize_only_on_success_witness:
  "snd (gen_3D_mesh recording_fake [''mesh''] (mk_lamination unit_square (1 / 10) 6 True)
          ''Lamination.msh'' (1 / 200) 2) = Inr () \<and>
   last (fst (gen_3D_mesh recording_fake [''mesh''] (mk_lamination unit_square (1 / 10) 6 True)
          ''Lamination.msh'' (1 / 200) 2)) = Finalize \<and>
   snd (gen_3D_mesh (failing_at (MeshGenerate 3)) [''mesh'']
          (mk_lamination half_disc (1 / 10) 2 False) ''Lamination.msh'' (1 / 200) 2) \<noteq> Inr () \<and>
   snd (gen_3D_mesh (failing_at (MeshGenerate 3)) [''mesh'']
          (mk_lamination half_disc (1 / 10) 2 False) ''Lamination.msh'' (1 / 200) 2) \<noteq>
     Inl (BackendError Finalize) \<and>
   Finalize \<notin> set (fst (gen_3D_mesh (failing_at (MeshGenerate 3)) [''mesh'']
          (mk_lamination half_disc (1 / 10) 2 False) ''Lamination.msh'' (1 / 200) 2))"
proof -
  have ok: "snd (gen_3D_mesh recording_fake [''mesh''] (mk_lamination unit_square (1 / 10) 6 True)
      ''Lamination.msh'' (1 / 200) 2) = Inr ()"
    by (simp add: unit_square_run)
  have ko: "snd (gen_3D_mesh (failing_at (MeshGenerate 3)) [''mesh'']
      (mk_lamination half_disc (1 / 10) 2 False) ''Lamination.msh'' (1 / 200) 2) \<noteq> Inr ()"
    "snd (gen_3D_mesh (failing_at (MeshGenerate 3)) [''mesh'']
      (mk_lamination half_disc (1 / 10) 2 False) ''Lamination.msh'' (1 / 200) 2) \<noteq>
      Inl (BackendError Finalize)"
    by (simp_all add: half_disc_run_generate_fails)
  from ok ko
    finalize_only_on_success [of recording_fake "[''mesh'']"
      "mk_lamination unit_square (1 / 10) 6 True" "''Lamination.msh''" "1 / 200" 2]
    finalize_only_on_success [of "failing_at (MeshGenerate 3)" "[''mesh'']"
      "mk_lamination half_disc (1 / 10) 2 False" "''Lamination.msh''" "1 / 200" 2]
  show ?thesis by blast
qed

text \<open>
  C6. Whenever the tooth of a non-empty boundary (the segments \<^verbatim>\<open>get_lines()\<close> returns)
  is built, the calls made for it hold
  one curve per segment, tagged 1, 2, ... in the order of creation; one curve loop, made
  of these tags in that order; curve \<open>j\<close> runs from point \<open>j\<close> to point \<open>j + 1\<close> and the
  last one back to point 1, where the first one begins.
\<close>

theorem planar_loop_builder_closed_loop:
  assumes run: "snd (planar_loop_builder gmsh L mesh_size tooth_surf h) = Inr ()"
    and ls: "get_lines tooth_surf = Some segs"
    and ne: "segs \<noteq> []"
  shows
    "length (curves (new_calls h (fst (planar_loop_builder gmsh L mesh_size tooth_surf h)))) =
       length segs \<and>
     map curve_tag (curves (new_calls h (fst (planar_loop_builder gmsh L mesh_size tooth_surf h)))) =
       [1..int (length segs)] \<and>
     filter is_AddCurveLoop (new_calls h (fst (planar_loop_builder gmsh L mesh_size tooth_surf h))) =
       [AddCurveLoop (map curve_tag
          (curves (new_calls h (fst (planar_loop_builder gmsh L mesh_size tooth_surf h))))) 1] \<and>
     map (\<lambda>c. (curve_begin c, curve_end c))
         (curves (new_calls h (fst (planar_loop_builder gmsh L mesh_size tooth_surf h)))) =
       map (\<lambda>j. (j, if j = int (length segs) then 1 else j + 1))
         [1..int (length segs)] \<and>
     curve_begin (hd (curves (new_calls h
         (fst (planar_loop_builder gmsh L mesh_size tooth_surf h))))) = 1 \<and>
     curve_end (last (curves (new_calls h
         (fst (planar_loop_builder gmsh L mesh_size tooth_surf h))))) = 1"
proof -
  let ?n = "int (length segs)"
  obtain h' where h': "planar_loop_builder gmsh L mesh_size tooth_surf h = (h', Inr ())"
    using run by (cases "planar_loop_builder gmsh L mesh_size tooth_surf h") simp
  obtain ys where ys: "h' = h @ ys"
    using grows_planar_loop_builder [of gmsh L mesh_size tooth_surf h] h' by auto
  with h' have nc: "new_calls h (fst (planar_loop_builder gmsh L mesh_size tooth_surf h)) = ys"
    by (simp add: new_calls_def)
  from planar_loop_builder_Inr [OF ls h'] ys
  have loops: "filter is_AddCurveLoop ys = [AddCurveLoop [1..?n] 1]"
    and info: "map curve_info (curves ys) = map (closing ?n) [1..?n]"
    by (simp_all add: curves_def)
  from ne have n1: "1 \<le> ?n" by (cases segs) simp_all
  have len: "length (curves ys) = length segs"
    using arg_cong [OF info, of length] by simp
  have tags: "map curve_tag (curves ys) = [1..?n]"
    using arg_cong [OF info, of "map (\<lambda>t. snd (snd t))"]
    by (simp add: curve_info_def closing_def comp_def map_idI)
  have ends: "map (\<lambda>c. (curve_begin c, curve_end c)) (curves ys) =
      map (\<lambda>j. (j, if j = ?n then 1 else j + 1)) [1..?n]"
    using arg_cong [OF info, of "map (\<lambda>t. (fst t, fst (snd t)))"]
    by (simp add: curve_info_def closing_def comp_def)
  from len ne have cne: "curves ys \<noteq> []" by auto
  have "(curve_begin (hd (curves ys)), curve_end (hd (curves ys))) =
      hd (map (\<lambda>j. (j, if j = ?n then 1 else j + 1)) [1..?n])"
    using arg_cong [OF ends, of hd] cne by (simp add: hd_map)
  then have b: "curve_begin (hd (curves ys)) = 1"
    by (simp add: hd_map_upto1 [OF n1])
  have "(curve_begin (last (curves ys)), curve_end (last (curves ys))) =
      last (map (\<lambda>j. (j, if j = ?n then 1 else j + 1)) [1..?n])"
    using arg_cong [OF ends, of last] cne by (simp add: last_map)
  then have e: "curve_end (last (curves ys)) = 1"
    by (simp add: last_map_upto1 [OF n1])
  from len tags loops ends b e show ?thesis
    unfolding nc by simp
qed

theorem planar_loop_builder_closed_loop_witness:
  "snd (planar_loop_builder recording_fake (1 / 10) (1 / 200) (mk_surface half_disc) []) = Inr () \<and>
   half_disc \<noteq> [] \<and>
   curves (new_calls [] (fst (planar_loop_builder recording_fake (1 / 10) (1 / 200) (mk_surface half_disc) []))) =
     [AddLine 1 2 1, AddCircleArc 2 2 1 2] \<and>
   length (curves (new_calls []
     (fst (planar_loop_builder recording_fake (1 / 10) (1 / 200) (mk_surface half_disc) [])))) = length half_disc \<and>
   filter is_AddCurveLoop (new_calls []
     (fst (planar_loop_builder recording_fake (1 / 10) (1 / 200) (mk_surface half_disc) []))) =
     [AddCurveLoop [1, 2] 1] \<and>
   curve_end (last (curves (new_calls []
     (fst (planar_loop_builder recording_fake (1 / 10) (1 / 200) (mk_surface half_disc) []))))) = 1"
proof -
  have run: "snd (planar_loop_builder recording_fake (1 / 10) (1 / 200) (mk_surface half_disc) []) = Inr ()"
    by (simp add: half_disc_tooth)
  have ls: "get_lines (mk_surface half_disc) = Some half_disc"
    by (simp add: mk_surface_def)
  have ne: "half_disc \<noteq> []"
    by (simp add: half_disc_def)
  have cs: "curves (new_calls []
      (fst (planar_loop_builder recording_fake (1 / 10) (1 / 200) (mk_surface half_disc) []))) =
      [AddLine 1 2 1, AddCircleArc 2 2 1 2]"
    by (simp add: half_disc_tooth new_calls_def curves_def)
  from planar_loop_builder_closed_loop [OF run ls ne] run ne cs show ?thesis
    by simp
qed

text \<open>
  C7. Whenever the extrusions succeed, the calls made are exactly one extrusion per
  surface of the list, in the order of the list, each of the single surface, along
  (0, 0, L), in \<open>Nlayer\<close> layers. This holds for every \<open>Nlayer\<close>, so for \<open>Nlayer \<ge> 1\<close>;
  the volume of each extrusion is made by the backend.
\<close>

theorem axial_extruder_one_extrusion_per_surface:
  assumes "snd (axial_extruder gmsh L Nlayer surf_list h) = Inr ()"
  shows "fst (axial_extruder gmsh L Nlayer surf_list h) =
         h @ map (\<lambda>surf. Extrude [(2, surf)] 0 0 L [Nlayer]) surf_list"
proof -
  obtain h' where "axial_extruder gmsh L Nlayer surf_list h = (h', Inr ())"
    using assms by (cases "axial_extruder gmsh L Nlayer surf_list h") simp
  from axial_extruder_Inr [OF this] this show ?thesis by simp
qed

theorem axial_extruder_one_extrusion_per_surface_witness:
  "snd (axial_extruder recording_fake (1 / 10) 2 [1, 2, 3] [Synchronize]) = Inr () \<and>
   fst (axial_extruder recording_fake (1 / 10) 2 [1, 2, 3] [Synchronize]) =
     [Synchronize, Extrude [(2, 1)] 0 0 (1 / 10) [2], Extrude [(2, 2)] 0 0 (1 / 10) [2],
      Extrude [(2, 3)] 0 0 (1 / 10) [2]]"
proof -
  have run: "snd (axial_extruder recording_fake (1 / 10) 2 [1, 2, 3] [Synchronize]) = Inr ()"
    by (simp add: run_simps)
  from axial_extruder_one_extrusion_per_surface [OF run] run show ?thesis
    by simp
qed

text \<open>
  C8. The claim: the group of dimension 3 and tag 1 holds every extruded volume, under
  the name "stator" or "rotor". The name, the dimension and the tag are as claimed, but
  line 83 lists the handles \<^verbatim>\<open>range(1, Zs + 1)\<close> while line 81 extrudes every element of
  \<open>surf_list\<close>: on the unit square with \<open>Zs = 6\<close> seven surfaces are extruded and the
  group lists six handles.
\<close>

theorem volume_group_one_short:
  "length (filter is_Extrude (fst (gen_3D_mesh recording_fake [''mesh'']
       (mk_lamination unit_square (1 / 10) 6 True) ''Lamination.msh'' (1 / 200) 2))) = 7 \<and>
   filter is_volume_group (fst (gen_3D_mesh recording_fake [''mesh'']
       (mk_lamination unit_square (1 / 10) 6 True) ''Lamination.msh'' (1 / 200) 2)) =
     [AddPhysicalGroup 3 [1, 2, 3, 4, 5, 6] 1] \<and>
   SetPhysicalName 3 1 ''stator'' \<in> set (fst (gen_3D_mesh recording_fake [''mesh'']
       (mk_lamination unit_square (1 / 10) 6 True) ''Lamination.msh'' (1 / 200) 2))"
  by (simp add: unit_square_run)




text \<open>
  C10, as stated: a failure to extract the tooth boundary comes before the backend is
  initialized. Not when it is \<^verbatim>\<open>get_lines()\<close> that raises: its first call is at line
  39, and by then the backend was initialized, its terminal option set and the model
  "Pyleecan" added; the run ends there, without finalizing.
\<close>

theorem get_lines_fails_after_initialize:
  "gen_3D_mesh recording_fake [''mesh''] broken_surface_lamination ''Lamination.msh'' (1 / 200) 2 =
   ([Initialize [''mesh''], OptionSetNumber ''General.Terminal'' 1, ModelAdd ''Pyleecan''],
    Inl GetLinesError)"
  by (simp add: broken_surface_run)

text \<open>
  C10, amended: when getting the tooth surface, reading the axial length or reading the
  slot count fails, the run ends with that failure and has made no call to the backend;
  and only then has a run made no call. When instead these reads succeed and
  \<^verbatim>\<open>get_lines()\<close> raises, the backend was initialized first: the calls of the run are
  the initialization and at most the two other calls that set the session up, no point,
  curve or surface was created, the run fails, and the session is not finalized.
\<close>

theorem reads_fail_before_backend:
  "(get_surface_tooth (slot lamination) = None \<or> L1 lamination = None \<or>
    Zs (slot lamination) = None \<longrightarrow>
      gen_3D_mesh gmsh argv lamination save_path mesh_size Nlayer = ([], Inl LaminationError)) \<and>
   (fst (gen_3D_mesh gmsh argv lamination save_path mesh_size Nlayer) = [] \<longrightarrow>
      get_surface_tooth (slot lamination) = None \<or> L1 lamination = None \<or>
      Zs (slot lamination) = None) \<and>
   (\<forall>tooth_surf L n. get_surface_tooth (slot lamination) = Some tooth_surf \<and>
      L1 lamination = Some L \<and> Zs (slot lamination) = Some n \<and> get_lines tooth_surf = None \<longrightarrow>
      fst (gen_3D_mesh gmsh argv lamination save_path mesh_size Nlayer) \<noteq> [] \<and>
      hd (fst (gen_3D_mesh gmsh argv lamination save_path mesh_size Nlayer)) = Initialize argv \<and>
      prefix (fst (gen_3D_mesh gmsh argv lamination save_path mesh_size Nlayer))
        [Initialize argv, OptionSetNumber ''General.Terminal'' 1, ModelAdd ''Pyleecan''] \<and>
      snd (gen_3D_mesh gmsh argv lamination save_path mesh_size Nlayer) \<noteq> Inr () \<and>
      Finalize \<notin> set (fst (gen_3D_mesh gmsh argv lamination save_path mesh_size Nlayer)))"
proof (intro conjI impI allI)
  assume "get_surface_tooth (slot lamination) = None \<or> L1 lamination = None \<or>
    Zs (slot lamination) = None"
  then show "gen_3D_mesh gmsh argv lamination save_path mesh_size Nlayer =
      ([], Inl LaminationError)"
    by (auto simp: gen_3D_mesh_def split: option.splits)
next
  assume e: "fst (gen_3D_mesh gmsh argv lamination save_path mesh_size Nlayer) = []"
  show "get_surface_tooth (slot lamination) = None \<or> L1 lamination = None \<or>
      Zs (slot lamination) = None"
  proof (rule ccontr)
    assume "\<not> (get_surface_tooth (slot lamination) = None \<or> L1 lamination = None \<or>
      Zs (slot lamination) = None)"
    then obtain ts L n where "get_surface_tooth (slot lamination) = Some ts"
      "L1 lamination = Some L" "Zs (slot lamination) = Some n"
      by auto
    from gen_3D_mesh_first_call [OF this, of gmsh argv save_path mesh_size Nlayer] e
    show False by auto
  qed
next
  fix tooth_surf L n
  assume a: "get_surface_tooth (slot lamination) = Some tooth_surf \<and>
      L1 lamination = Some L \<and> Zs (slot lamination) = Some n \<and> get_lines tooth_surf = None"
  then have run: "gen_3D_mesh gmsh argv lamination save_path mesh_size Nlayer =
     (bind (invoke gmsh (Initialize argv)) (\<lambda>_.
      bind (invoke gmsh (OptionSetNumber ''General.Terminal'' 1)) (\<lambda>_.
      bind (invoke gmsh (ModelAdd ''Pyleecan'')) (\<lambda>_. raise GetLinesError)))) []"
    by (simp add: gen_3D_mesh_get_lines_fails)
  show "fst (gen_3D_mesh gmsh argv lamination save_path mesh_size Nlayer) \<noteq> []"
    unfolding run by (simp add: bind_def invoke_def raise_def split: option.splits)
  show "hd (fst (gen_3D_mesh gmsh argv lamination save_path mesh_size Nlayer)) = Initialize argv"
    unfolding run by (simp add: bind_def invoke_def raise_def split: option.splits)
  show "prefix (fst (gen_3D_mesh gmsh argv lamination save_path mesh_size Nlayer))
        [Initialize argv, OptionSetNumber ''General.Terminal'' 1, ModelAdd ''Pyleecan'']"
    unfolding run by (simp add: bind_def invoke_def raise_def split: option.splits)
  show "snd (gen_3D_mesh gmsh argv lamination save_path mesh_size Nlayer) \<noteq> Inr ()"
    unfolding run by (simp add: bind_def invoke_def raise_def split: option.splits)
  show "Finalize \<notin> set (fst (gen_3D_mesh gmsh argv lamination save_path mesh_size Nlayer))"
    unfolding run by (simp add: bind_def invoke_def raise_def split: option.splits)
qed

theorem reads_fail_before_backend_witness:
  "L1 \<lparr>slot = \<lparr>get_surface_tooth = Some (mk_surface unit_square), Zs = Some 6\<rparr>, L1 = None,
        is_stator = True\<rparr> = None \<and>
   gen_3D_mesh recording_fake [''mesh'']
     \<lparr>slot = \<lparr>get_surface_tooth = Some (mk_surface unit_square), Zs = Some 6\<rparr>, L1 = None,
      is_stator = True\<rparr>
     ''Lamination.msh'' (1 / 200) 2 = ([], Inl LaminationError) \<and>
   get_lines \<lparr>get_lines = None\<rparr> = None \<and>
   hd (fst (gen_3D_mesh recording_fake [''mesh''] broken_surface_lamination
     ''Lamination.msh'' (1 / 200) 2)) = Initialize [''mesh''] \<and>
   snd (gen_3D_mesh recording_fake [''mesh''] broken_surface_lamination
     ''Lamination.msh'' (1 / 200) 2) \<noteq> Inr () \<and>
   Finalize \<notin> set (fst (gen_3D_mesh recording_fake [''mesh''] broken_surface_lamination
     ''Lamination.msh'' (1 / 200) 2))"
proof -
  have rd: "get_surface_tooth (slot broken_surface_lamination) = Some \<lparr>get_lines = None\<rparr>"
    "L1 broken_surface_lamination = Some (1 / 10)"
    "Zs (slot broken_surface_lamination) = Some 6"
    "get_lines \<lparr>get_lines = None\<rparr> = None"
    by (simp_all add: broken_surface_lamination_def)
  have no: "L1 \<lparr>slot = \<lparr>get_surface_tooth = Some (mk_surface unit_square), Zs = Some 6\<rparr>,
      L1 = None, is_stator = True\<rparr> = None"
    by simp
  from no reads_fail_before_backend [of
      "\<lparr>slot = \<lparr>get_surface_tooth = Some (mk_surface unit_square), Zs = Some 6\<rparr>, L1 = None,
        is_stator = True\<rparr>"
      recording_fake "[''mesh'']" "''Lamination.msh''" "1 / 200" 2]
  have first: "gen_3D_mesh recording_fake [''mesh'']
     \<lparr>slot = \<lparr>get_surface_tooth = Some (mk_surface unit_square), Zs = Some 6\<rparr>, L1 = None,
      is_stator = True\<rparr>
     ''Lamination.msh'' (1 / 200) 2 = ([], Inl LaminationError)"
    by blast
  from rd reads_fail_before_backend [of broken_surface_lamination
      recording_fake "[''mesh'']" "''Lamination.msh''" "1 / 200" 2]
  have "hd (fst (gen_3D_mesh recording_fake [''mesh''] broken_surface_lamination
       ''Lamination.msh'' (1 / 200) 2)) = Initialize [''mesh''] \<and>
     snd (gen_3D_mesh recording_fake [''mesh''] broken_surface_lamination
       ''Lamination.msh'' (1 / 200) 2) \<noteq> Inr () \<and>
     Finalize \<notin> set (fst (gen_3D_mesh recording_fake [''mesh''] broken_surface_lamination
       ''Lamination.msh'' (1 / 200) 2))"
    by blast
  with no first rd(4) show ?thesis by blast
qed

end
